theory Spec2Isabelle
  imports Complex_Main "HOL-Library.Multiset"
begin

section \<open>Circuit breaker (src/lib/circuitBreaker.js)\<close>

text \<open>
  The breaker is a JavaScript object with mutable fields; every method is modelled as a
  function from the old object to the new one. \<open>Date.now()\<close> is an explicit argument
  \<open>now\<close> (milliseconds, an integer). Numbers are modelled as \<open>int\<close>; the field
  \<open>lastFailureTime\<close> is \<open>null\<close> until the first failure, hence an \<open>option\<close>.
\<close>

datatype cb_state = CLOSED | OPEN | HALF_OPEN

text \<open>The options object handed to the constructor: an absent property is \<open>None\<close>.\<close>

record cb_options =
  opt_failureThreshold :: "int option"
  opt_resetTimeout :: "int option"
  opt_halfOpenSuccessThreshold :: "int option"
  opt_requestTimeout :: "int option"

record CircuitBreaker =
  state :: cb_state
  failureCount :: int
  successCount :: int
  lastFailureTime :: "int option"
  failureThreshold :: int
  resetTimeout :: int
  halfOpenSuccessThreshold :: int
  requestTimeout :: int

text \<open>
  \<open>options.x || d\<close>: the default is taken when the property is absent and also when it is
  the falsy number \<open>0\<close>.
\<close>

definition js_or :: "int option \<Rightarrow> int \<Rightarrow> int" where
  "js_or v d = (case v of None \<Rightarrow> d | Some x \<Rightarrow> if x = 0 then d else x)"

definition new_CircuitBreaker :: "cb_options \<Rightarrow> CircuitBreaker" where
  "new_CircuitBreaker options =
     \<lparr> state = CLOSED,
       failureCount = 0,
       successCount = 0,
       lastFailureTime = None,
       failureThreshold = js_or (opt_failureThreshold options) 5,
       resetTimeout = js_or (opt_resetTimeout options) 30000,
       halfOpenSuccessThreshold = js_or (opt_halfOpenSuccessThreshold options) 3,
       requestTimeout = js_or (opt_requestTimeout options) 10000 \<rparr>"

definition transitionToOpen :: "CircuitBreaker \<Rightarrow> CircuitBreaker" where
  "transitionToOpen cb = cb\<lparr>state := OPEN, successCount := 0\<rparr>"

definition transitionToHalfOpen :: "CircuitBreaker \<Rightarrow> CircuitBreaker" where
  "transitionToHalfOpen cb = cb\<lparr>state := HALF_OPEN, successCount := 0\<rparr>"

definition transitionToClosed :: "CircuitBreaker \<Rightarrow> CircuitBreaker" where
  "transitionToClosed cb = cb\<lparr>state := CLOSED, failureCount := 0, successCount := 0\<rparr>"

text \<open>
  In the subtraction \<open>now - this.lastFailureTime\<close> JavaScript converts \<open>null\<close> to \<open>0\<close>.
\<close>

definition js_time :: "int option \<Rightarrow> int" where
  "js_time t = (case t of None \<Rightarrow> 0 | Some x \<Rightarrow> x)"

text \<open>\<open>isOpen()\<close> returns the boolean together with the possibly updated breaker.\<close>

definition isOpen :: "int \<Rightarrow> CircuitBreaker \<Rightarrow> bool \<times> CircuitBreaker" where
  "isOpen now cb =
     (let cb' =
        (if state cb = OPEN then
           (if now - js_time (lastFailureTime cb) > resetTimeout cb
            then transitionToHalfOpen cb else cb)
         else cb)
      in (state cb' = OPEN, cb'))"

definition recordFailure :: "int \<Rightarrow> CircuitBreaker \<Rightarrow> CircuitBreaker" where
  "recordFailure now cb =
     (let cb1 = cb\<lparr>lastFailureTime := Some now,
                    failureCount := failureCount cb + 1,
                    successCount := 0\<rparr>
      in if state cb1 = CLOSED \<and> failureCount cb1 \<ge> failureThreshold cb1
         then transitionToOpen cb1
         else if state cb1 = HALF_OPEN then transitionToOpen cb1
         else cb1)"

definition recordSuccess :: "CircuitBreaker \<Rightarrow> CircuitBreaker" where
  "recordSuccess cb =
     (let cb1 = cb\<lparr>failureCount := 0\<rparr>
      in if state cb1 = HALF_OPEN then
           (let cb2 = cb1\<lparr>successCount := successCount cb1 + 1\<rparr>
            in if successCount cb2 \<ge> halfOpenSuccessThreshold cb2
               then transitionToClosed cb2 else cb2)
         else cb1)"

definition reset :: "CircuitBreaker \<Rightarrow> CircuitBreaker" where
  "reset cb = cb\<lparr>state := CLOSED, failureCount := 0, successCount := 0,
                  lastFailureTime := None\<rparr>"

record cb_snapshot =
  snap_state :: cb_state
  snap_failureCount :: int
  snap_successCount :: int
  snap_lastFailureTime :: "int option"

definition getState :: "CircuitBreaker \<Rightarrow> cb_snapshot" where
  "getState cb =
     \<lparr> snap_state = state cb,
       snap_failureCount = failureCount cb,
       snap_successCount = successCount cb,
       snap_lastFailureTime = lastFailureTime cb \<rparr>"

text \<open>
  Consecutive calls: \<open>recordFailures ts\<close> is one \<open>recordFailure\<close> per clock reading in
  \<open>ts\<close>, in order; \<open>recordSuccesses n\<close> is \<open>n\<close> calls of \<open>recordSuccess\<close>.
\<close>

definition recordFailures :: "int list \<Rightarrow> CircuitBreaker \<Rightarrow> CircuitBreaker" where
  "recordFailures ts cb = fold recordFailure ts cb"

definition recordSuccesses :: "nat \<Rightarrow> CircuitBreaker \<Rightarrow> CircuitBreaker" where
  "recordSuccesses n cb = (recordSuccess ^^ n) cb"

section \<open>Arrays and JavaScript values\<close>

text \<open>
  Arrays are mutable and shared by reference: \<open>registerService\<close> keeps the caller's array
  in the service entry, while the load balancer works on a copy of it. Arrays therefore
  live in an explicit store, a list of arrays addressed by position; a reference is an
  index into the store, and allocation appends. All other objects (breaker, load
  balancer, service entry) are passed as values, every method returning the new object.
\<close>

type_synonym ref = nat

type_synonym heap = "string list list"

definition alloc :: "heap \<Rightarrow> string list \<Rightarrow> heap \<times> ref" where
  "alloc h xs = (h @ [xs], length h)"

text \<open>\<open>xs[i]\<close>: reading past the end of an array yields \<open>undefined\<close>, here \<open>None\<close>.\<close>

definition js_index :: "'a list \<Rightarrow> nat \<Rightarrow> 'a option" where
  "js_index xs i = (if i < length xs then Some (xs ! i) else None)"

text \<open>\<open>xs.indexOf(x)\<close>: the first position of \<open>x\<close>; \<open>None\<close> stands for \<open>-1\<close>.\<close>

fun indexOf :: "'a list \<Rightarrow> 'a \<Rightarrow> nat option" where
  "indexOf [] x = None"
| "indexOf (y # ys) x =
     (if y = x then Some 0 else map_option Suc (indexOf ys x))"

text \<open>\<open>xs.splice(i, 1)\<close>: the array without its element at position \<open>i\<close>.\<close>

definition splice1 :: "'a list \<Rightarrow> nat \<Rightarrow> 'a list" where
  "splice1 xs i = take i xs @ drop (Suc i) xs"

text \<open>
  A connection counter is a JavaScript number. It is an integer unless \<open>++\<close> was
  applied to something that is not a number, which stores \<open>NaN\<close>.
\<close>

datatype count = Num int | NaN

text \<open>
  \<open>connectionCounts\<close> is a plain object (\<open>{}\<close>) used as a dictionary from target
  strings to counters. Its own properties are a map. Plain objects inherit from
  \<open>Object.prototype\<close>, and one inherited name is special: \<open>__proto__\<close> is an accessor.
  Assigning a number to \<open>o['__proto__']\<close> creates no property and changes nothing, and
  reading it yields the prototype object whatever the own properties are.

  A read returns \<open>None\<close> when the value is not a number held by the object itself:
  \<open>undefined\<close> for a missing name, the prototype for \<open>__proto__\<close>, an inherited
  function for a missing name such as \<open>toString\<close>. The code applies only \<open><\<close>, \<open>>\<close> and
  \<open>++\<close> to what it reads, and all these values behave alike there: every comparison is
  false and \<open>++\<close> computes \<open>NaN\<close>.
\<close>

definition obj_get :: "(string \<rightharpoonup> 'v) \<Rightarrow> string \<Rightarrow> 'v option" where
  "obj_get m k = (if k = ''__proto__'' then None else m k)"

definition obj_set :: "(string \<rightharpoonup> 'v) \<Rightarrow> string \<Rightarrow> 'v \<Rightarrow> (string \<rightharpoonup> 'v)" where
  "obj_set m k v = (if k = ''__proto__'' then m else m(k \<mapsto> v))"

text \<open>\<open>delete o[k]\<close> removes an own property, if there is one.\<close>

definition obj_delete :: "(string \<rightharpoonup> 'v) \<Rightarrow> string \<Rightarrow> (string \<rightharpoonup> 'v)" where
  "obj_delete m k = m(k := None)"

text \<open>\<open>a < b\<close> on what was read: false as soon as one side is not an integer.\<close>

fun js_lt :: "count option \<Rightarrow> count option \<Rightarrow> bool" where
  "js_lt (Some (Num a)) (Some (Num b)) = (a < b)"
| "js_lt _ _ = False"

text \<open>The value stored by \<open>c++\<close>.\<close>

fun js_incr :: "count option \<Rightarrow> count" where
  "js_incr (Some (Num n)) = Num (n + 1)"
| "js_incr _ = NaN"

text \<open>The property name used for a possibly \<open>undefined\<close> key.\<close>

fun js_key :: "string option \<Rightarrow> string" where
  "js_key None = ''undefined''"
| "js_key (Some s) = s"

text \<open>
  The errors thrown by the code are plain \<open>Error\<close> objects told apart by their message;
  the constructors carry the names the specification gives them:
  \<open>InvalidConfiguration\<close> for "Targets must be a non-empty array of URLs",
  \<open>ServiceNotRegistered\<close> for "Service ... is not registered",
  \<open>NoTargetsAvailable\<close> for "No targets available for load balancing" and
  \<open>CircuitOpen\<close> for "Service is unavailable (circuit open)" (status code 503).
\<close>

datatype error = InvalidConfiguration | ServiceNotRegistered | NoTargetsAvailable | CircuitOpen

section \<open>Load balancer (class LoadBalancer)\<close>

record LoadBalancer =
  targets :: ref
  strategy :: string
  currentIndex :: nat
  connectionCounts :: "string \<rightharpoonup> count"

text \<open>
  The constructor copies the array it is given (\<open>[...targets]\<close>) and gives every target
  a counter of 0.
\<close>

definition new_LoadBalancer :: "heap \<Rightarrow> ref \<Rightarrow> string \<Rightarrow> heap \<times> LoadBalancer" where
  "new_LoadBalancer h tgts strat =
     (let (h', r) = alloc h (h ! tgts)
      in (h', \<lparr> targets = r,
                strategy = strat,
                currentIndex = 0,
                connectionCounts = fold (\<lambda>target acc. obj_set acc target (Num 0)) (h' ! r) Map.empty \<rparr>))"

text \<open>
  With no target at all JavaScript would compute \<open>NaN\<close> for the new cursor;
  \<open>getNextTarget\<close>, the only caller, reaches this method with two targets or more.
\<close>

definition getRoundRobinTarget :: "heap \<Rightarrow> LoadBalancer \<Rightarrow> string option \<times> LoadBalancer" where
  "getRoundRobinTarget h lb =
     (let ts = h ! LoadBalancer.targets lb;
          target = js_index ts (currentIndex lb)
      in (target, lb\<lparr>currentIndex := (currentIndex lb + 1) mod length ts\<rparr>))"

text \<open>\<open>rnd\<close> is the value of \<open>Math.random()\<close>, a real in \<open>[0, 1)\<close>.\<close>

definition getRandomTarget :: "real \<Rightarrow> heap \<Rightarrow> LoadBalancer \<Rightarrow> string option" where
  "getRandomTarget rnd h lb =
     (let ts = h ! LoadBalancer.targets lb;
          randomIndex = nat \<lfloor>rnd * real (length ts)\<rfloor>
      in js_index ts randomIndex)"

text \<open>
  \<open>reduce\<close> with the initial value \<open>this.targets[0]\<close> visits every element from the
  first one on, keeping the current minimum unless the visited target's counter is
  strictly smaller.
\<close>

definition least_step :: "(string \<rightharpoonup> count) \<Rightarrow> string \<Rightarrow> string option \<Rightarrow> string option" where
  "least_step cc cur mn =
     (if js_lt (obj_get cc cur) (obj_get cc (js_key mn)) then Some cur else mn)"

definition getLeastConnectionsTarget :: "heap \<Rightarrow> LoadBalancer \<Rightarrow> string option \<times> LoadBalancer" where
  "getLeastConnectionsTarget h lb =
     (let ts = h ! LoadBalancer.targets lb;
          cc = connectionCounts lb;
          target = fold (least_step cc) ts (js_index ts 0)
      in (target,
          lb\<lparr>connectionCounts :=
               obj_set cc (js_key target) (js_incr (obj_get cc (js_key target)))\<rparr>))"

definition getNextTarget ::
  "real \<Rightarrow> heap \<Rightarrow> LoadBalancer \<Rightarrow> error + (string option \<times> LoadBalancer)" where
  "getNextTarget rnd h lb =
     (let ts = h ! LoadBalancer.targets lb in
      if length ts = 0 then Inl NoTargetsAvailable
      else if length ts = 1 then Inr (js_index ts 0, lb)
      else if strategy lb = ''random'' then Inr (getRandomTarget rnd h lb, lb)
      else if strategy lb = ''least-connections'' then Inr (getLeastConnectionsTarget h lb)
      else Inr (getRoundRobinTarget h lb))"

definition releaseConnection :: "string \<Rightarrow> LoadBalancer \<Rightarrow> LoadBalancer" where
  "releaseConnection target lb =
     (case obj_get (connectionCounts lb) target of
        Some (Num n) \<Rightarrow>
          if n > 0
          then lb\<lparr>connectionCounts := obj_set (connectionCounts lb) target (Num (n - 1))\<rparr>
          else lb
      | _ \<Rightarrow> lb)"

definition addTarget :: "string \<Rightarrow> heap \<Rightarrow> LoadBalancer \<Rightarrow> heap \<times> LoadBalancer" where
  "addTarget target h lb =
     (let ts = h ! LoadBalancer.targets lb in
      if target \<notin> set ts
      then (h[LoadBalancer.targets lb := ts @ [target]],
            lb\<lparr>connectionCounts := obj_set (connectionCounts lb) target (Num 0)\<rparr>)
      else (h, lb))"

definition removeTarget :: "string \<Rightarrow> heap \<Rightarrow> LoadBalancer \<Rightarrow> heap \<times> LoadBalancer" where
  "removeTarget target h lb =
     (let ts = h ! LoadBalancer.targets lb in
      case indexOf ts target of
        None \<Rightarrow> (h, lb)
      | Some index \<Rightarrow>
          (let ts' = splice1 ts index
           in (h[LoadBalancer.targets lb := ts'],
               lb\<lparr>connectionCounts := obj_delete (connectionCounts lb) target,
                  currentIndex := (if currentIndex lb \<ge> length ts' then 0 else currentIndex lb)\<rparr>)))"

definition getTargets :: "heap \<Rightarrow> LoadBalancer \<Rightarrow> heap \<times> ref" where
  "getTargets h lb = alloc h (h ! LoadBalancer.targets lb)"

text \<open>
  Sequences of calls on one load balancer. \<open>getNextTargets rnds\<close> is one \<open>getNextTarget\<close>
  call per element of \<open>rnds\<close> (the values \<open>Math.random()\<close> would return), collecting the
  results; a call that throws leaves the object as it was.
\<close>

fun getNextTargets ::
  "real list \<Rightarrow> heap \<Rightarrow> LoadBalancer \<Rightarrow> (error + string option) list \<times> LoadBalancer" where
  "getNextTargets [] h lb = ([], lb)"
| "getNextTargets (rnd # rnds) h lb =
     (case getNextTarget rnd h lb of
        Inl e \<Rightarrow> (let (rs, lb') = getNextTargets rnds h lb in (Inl e # rs, lb'))
      | Inr (t, lb1) \<Rightarrow> (let (rs, lb') = getNextTargets rnds h lb1 in (Inr t # rs, lb')))"

datatype lb_op = AddTarget string | RemoveTarget string | GetNextTarget real

fun lb_apply :: "lb_op \<Rightarrow> heap \<times> LoadBalancer \<Rightarrow> heap \<times> LoadBalancer" where
  "lb_apply (AddTarget t) (h, lb) = addTarget t h lb"
| "lb_apply (RemoveTarget t) (h, lb) = removeTarget t h lb"
| "lb_apply (GetNextTarget rnd) (h, lb) =
     (case getNextTarget rnd h lb of Inl e \<Rightarrow> (h, lb) | Inr (t, lb') \<Rightarrow> (h, lb'))"

definition lb_run :: "lb_op list \<Rightarrow> heap \<times> LoadBalancer \<Rightarrow> heap \<times> LoadBalancer" where
  "lb_run ops s = fold lb_apply ops s"




section \<open>Service proxy (class ServiceProxy)\<close>

text \<open>
  The options object of \<open>registerService\<close> and of the \<open>ServiceProxy\<close> constructor. Only
  the properties the proxy itself reads are modelled; the remaining ones (\<open>changeOrigin\<close>,
  \<open>logLevel\<close>, \<open>pathRewrite\<close>, ...) are handed to the forwarding engine unread.
  \<open>opt_responseHeaders\<close> is what \<open>Object.entries\<close> returns for the \<open>responseHeaders\<close>
  object: its own enumerable properties, in enumeration order.
\<close>

record options =
  opt_loadBalancingStrategy :: "string option"
  opt_circuitBreaker :: "cb_options option"
  opt_responseHeaders :: "(string \<times> string) list option"

text \<open>The merged \<open>serviceOptions\<close>; its \<open>circuitBreaker\<close> property is always present.\<close>

record service_options =
  so_loadBalancingStrategy :: "string option"
  so_circuitBreaker :: cb_options
  so_responseHeaders :: "(string \<times> string) list option"

text \<open>
  A registry entry. \<open>targets\<close> is the very array the caller passed (a reference), while
  the load balancer owns its copy.
\<close>

record service =
  targets :: ref
  loadBalancer :: LoadBalancer
  circuitBreaker :: CircuitBreaker
  options :: service_options

text \<open>
  \<open>this.services\<close> is a \<open>Map\<close>: keys are unique and iteration follows insertion order.
  It is an association list; \<open>map_set\<close> is \<open>Map.prototype.set\<close> (an existing key keeps
  its position), and \<open>map_of\<close> is \<open>Map.prototype.get\<close>.
\<close>

fun map_set :: "('k \<times> 'v) list \<Rightarrow> 'k \<Rightarrow> 'v \<Rightarrow> ('k \<times> 'v) list" where
  "map_set [] k v = [(k, v)]"
| "map_set ((k', v') # kvs) k v =
     (if k' = k then (k, v) # kvs else (k', v') # map_set kvs k v)"

record ServiceProxy =
  services :: "(string \<times> service) list"
  defaultOptions :: options

definition new_ServiceProxy :: "options \<Rightarrow> ServiceProxy" where
  "new_ServiceProxy opts = \<lparr> services = [], defaultOptions = opts \<rparr>"

text \<open>One property of an object spread \<open>{...a, ...b}\<close>: \<open>b\<close>'s value when \<open>b\<close> has it.\<close>

definition spread :: "'a option \<Rightarrow> 'a option \<Rightarrow> 'a option" where
  "spread a b = (case b of None \<Rightarrow> a | Some v \<Rightarrow> Some v)"

text \<open>\<open>s || 'round-robin'\<close>: the empty string is falsy.\<close>

definition js_or_str :: "string option \<Rightarrow> string \<Rightarrow> string" where
  "js_or_str v d = (case v of None \<Rightarrow> d | Some s \<Rightarrow> if s = [] then d else s)"

text \<open>The argument \<open>targets\<close> of \<open>registerService\<close>: an array, or some other value.\<close>

datatype targets_arg = NotAnArray | Array ref

definition merge_options :: "options \<Rightarrow> options \<Rightarrow> service_options" where
  "merge_options defaults opts =
     (let given = (case opt_circuitBreaker opts of
                     None \<Rightarrow> \<lparr> opt_failureThreshold = None, opt_resetTimeout = None,
                               opt_halfOpenSuccessThreshold = None, opt_requestTimeout = None \<rparr>
                   | Some c \<Rightarrow> c)
      in \<lparr> so_loadBalancingStrategy =
             spread (opt_loadBalancingStrategy defaults) (opt_loadBalancingStrategy opts),
           so_circuitBreaker =
             \<lparr> opt_failureThreshold = spread (Some 5) (opt_failureThreshold given),
               opt_resetTimeout = spread (Some 30000) (opt_resetTimeout given),
               opt_halfOpenSuccessThreshold = opt_halfOpenSuccessThreshold given,
               opt_requestTimeout = spread (Some 10000) (opt_requestTimeout given) \<rparr>,
           so_responseHeaders =
             spread (opt_responseHeaders defaults) (opt_responseHeaders opts) \<rparr>)"

text \<open>
  \<open>registerService\<close> either throws (first component \<open>Inl\<close>) or returns; in both cases
  the store and the proxy after the call are returned, so that what a rejected call
  leaves behind is part of the result.
\<close>

definition registerService ::
  "string \<Rightarrow> targets_arg \<Rightarrow> options \<Rightarrow> heap \<Rightarrow> ServiceProxy
   \<Rightarrow> (error + unit) \<times> heap \<times> ServiceProxy" where
  "registerService serviceName tgts opts h p =
     (case tgts of
        NotAnArray \<Rightarrow> (Inl InvalidConfiguration, h, p)
      | Array r \<Rightarrow>
          if length (h ! r) = 0 then (Inl InvalidConfiguration, h, p)
          else
            (let serviceOptions = merge_options (defaultOptions p) opts;
                 (h', lb) = new_LoadBalancer h r
                              (js_or_str (so_loadBalancingStrategy serviceOptions) ''round-robin'');
                 cb = new_CircuitBreaker (so_circuitBreaker serviceOptions)
             in (Inr (), h',
                 p\<lparr>services := map_set (services p) serviceName
                      \<lparr> targets = r, loadBalancer = lb, circuitBreaker = cb,
                        options = serviceOptions \<rparr>\<rparr>)))"

subsection \<open>The request handler built by getServiceMiddleware\<close>

text \<open>
  \<open>getServiceMiddleware\<close> looks the entry up once, throws when there is none, and
  otherwise hands three callbacks closed over that entry to the forwarding engine. The
  result here is the captured entry; the callbacks are functions of it.
\<close>

definition getServiceMiddleware :: "string \<Rightarrow> ServiceProxy \<Rightarrow> error + service" where
  "getServiceMiddleware serviceName p =
     (case map_of (services p) serviceName of
        None \<Rightarrow> Inl ServiceNotRegistered
      | Some svc \<Rightarrow> Inr svc)"

text \<open>
  \<open>router\<close>: the breaker is asked first; a target is chosen only when it is not open.
  The entry is returned in both cases, since \<open>isOpen\<close> may have changed the breaker.
\<close>

definition router :: "int \<Rightarrow> real \<Rightarrow> heap \<Rightarrow> service \<Rightarrow> (error + string option) \<times> service" where
  "router now rnd h svc =
     (let (opn, cb') = isOpen now (circuitBreaker svc);
          svc1 = svc\<lparr>circuitBreaker := cb'\<rparr>
      in if opn then (Inl CircuitOpen, svc1)
         else (case getNextTarget rnd h (loadBalancer svc1) of
                 Inl e \<Rightarrow> (Inl e, svc1)
               | Inr (target, lb') \<Rightarrow> (Inr target, svc1\<lparr>loadBalancer := lb'\<rparr>)))"

text \<open>\<open>if (target)\<close>: \<open>undefined\<close> and the empty string are falsy.\<close>

definition js_truthy :: "string option \<Rightarrow> bool" where
  "js_truthy v = (case v of None \<Rightarrow> False | Some s \<Rightarrow> s \<noteq> [])"

text \<open>The JSON body the handler itself sends: status code, \<open>error\<close> and \<open>message\<close>.\<close>

record reply =
  statusCode :: int
  error_text :: string
  message :: string

text \<open>
  \<open>onError(err, req, res, target)\<close>: \<open>msg\<close> is \<open>err.message\<close> and \<open>headersSent\<close> is
  \<open>res.headersSent\<close>. The result is the entry and the reply sent, if any.
\<close>

definition onError ::
  "int \<Rightarrow> string option \<Rightarrow> string option \<Rightarrow> bool \<Rightarrow> service \<Rightarrow> service \<times> reply option" where
  "onError now msg target headersSent svc =
     (let svc1 = (if js_truthy target
                  then svc\<lparr>circuitBreaker := recordFailure now (circuitBreaker svc)\<rparr>
                  else svc)
      in (svc1,
          if \<not> headersSent
          then Some \<lparr> statusCode = 503, error_text = ''Service Unavailable'',
                      message = js_or_str msg ''Proxy error'' \<rparr>
          else None))"

text \<open>
  \<open>onProxyRes(proxyRes, req, res)\<close>: \<open>status\<close> is \<open>proxyRes.statusCode\<close>. The result is
  the entry and the response headers set by the callback.
\<close>

definition onProxyRes :: "int \<Rightarrow> int \<Rightarrow> service \<Rightarrow> service \<times> (string \<times> string) list" where
  "onProxyRes now status svc =
     (let svc1 = (if status < 500
                  then svc\<lparr>circuitBreaker := recordSuccess (circuitBreaker svc)\<rparr>
                  else svc\<lparr>circuitBreaker := recordFailure now (circuitBreaker svc)\<rparr>)
      in (svc1,
          case so_responseHeaders (options svc) of
            None \<Rightarrow> []
          | Some hs \<Rightarrow> hs))"

text \<open>
  The forwarding engine (the library http-proxy-middleware) is not part of the
  repository. Its protocol is the one the specification describes for the routing
  boundary (sections 4.4 and 6): per request it calls \<open>router\<close>; when \<open>router\<close> throws,
  no target is contacted and no outcome callback runs; otherwise it forwards to the
  resolved target and, when the forwarding completes, calls exactly one outcome
  callback: \<open>onError\<close> for a transport failure (with the error's message and whether
  response headers were already sent), \<open>onProxyRes\<close> for a response (with its status).
  \<open>now1\<close> and \<open>now2\<close> are the clock readings at selection and at completion.
\<close>

datatype outcome = TransportError "string option" bool | Response int

datatype completion =
    Rejected error
  | Failed "reply option"
  | Forwarded int "(string \<times> string) list"

definition handle_request ::
  "int \<Rightarrow> real \<Rightarrow> int \<Rightarrow> outcome \<Rightarrow> heap \<Rightarrow> service \<Rightarrow> completion \<times> string option \<times> service" where
  "handle_request now1 rnd now2 out h svc =
     (case router now1 rnd h svc of
        (Inl e, svc1) \<Rightarrow> (Rejected e, None, svc1)
      | (Inr target, svc1) \<Rightarrow>
          (case out of
             TransportError msg headersSent \<Rightarrow>
               (let (svc2, rep) = onError now2 msg target headersSent svc1
                in (Failed rep, target, svc2))
           | Response status \<Rightarrow>
               (let (svc2, hdrs) = onProxyRes now2 status svc1
                in (Forwarded status hdrs, target, svc2))))"

subsection \<open>Health middleware\<close>

record service_health =
  sh_status :: string
  sh_targets :: "string list"
  sh_circuitState :: cb_snapshot

text \<open>
  \<open>health.services\<close> is a plain object filled by \<open>health.services[name] = ...\<close> and read
  by \<open>Object.values\<close> and by the JSON serialisation of \<open>res.json\<close>. Both see the own
  properties in JavaScript's enumeration order, so the object is the list of its own
  properties in that order: names that are array indices (the canonical decimal form of
  an integer from 0 to \<open>2^32 - 2\<close>) come first, in ascending numeric order, and all other
  names follow in the order in which they were created. Assigning an object to
  \<open>o['__proto__']\<close> replaces the prototype and creates no own property.
\<close>

definition is_digit :: "char \<Rightarrow> bool" where
  "is_digit c = (c \<in> set ''0123456789'')"

definition dec_value :: "string \<Rightarrow> nat" where
  "dec_value s = foldl (\<lambda>n c. 10 * n + (of_char c - 48)) 0 s"

definition is_array_index :: "string \<Rightarrow> bool" where
  "is_array_index s =
     (case s of
        [] \<Rightarrow> False
      | c # cs \<Rightarrow> list_all is_digit s
                 \<and> (if c = CHR ''0'' then cs = [] else True)
                 \<and> dec_value s \<le> 4294967294)"

text \<open>A new array-index name goes before the first name that is none or is larger.\<close>

fun insert_index :: "(string \<times> 'v) list \<Rightarrow> string \<Rightarrow> 'v \<Rightarrow> (string \<times> 'v) list" where
  "insert_index [] k v = [(k, v)]"
| "insert_index ((k', v') # kvs) k v =
     (if is_array_index k' \<and> dec_value k' < dec_value k
      then (k', v') # insert_index kvs k v
      else (k, v) # (k', v') # kvs)"

text \<open>\<open>o[k] = v\<close> for an object value \<open>v\<close>.\<close>

definition obj_assign :: "(string \<times> 'v) list \<Rightarrow> string \<Rightarrow> 'v \<Rightarrow> (string \<times> 'v) list" where
  "obj_assign ob k v =
     (if k = ''__proto__'' then ob
      else if k \<in> set (map fst ob)
        then map (\<lambda>(k', v'). if k' = k then (k', v) else (k', v')) ob
      else if is_array_index k then insert_index ob k v
      else ob @ [(k, v)])"

record health =
  h_status :: string
  h_services :: "(string \<times> service_health) list"

text \<open>
  One step of \<open>this.services.forEach\<close>: \<open>isOpen()\<close> is called first (and may move the
  breaker to \<open>HALF_OPEN\<close>), \<open>getState()\<close> afterwards. \<open>res.json\<close> serialises the array
  \<open>service.targets\<close>, so the report holds its contents. \<open>clock name\<close> is the reading of
  \<open>Date.now()\<close> while the service \<open>name\<close> is visited.
\<close>

definition health_visit ::
  "(string \<Rightarrow> int) \<Rightarrow> heap \<Rightarrow> string \<times> service \<Rightarrow> (string \<times> service_health) \<times> (string \<times> service)" where
  "health_visit clock h entry =
     (let (name, svc) = entry;
          (opn, cb') = isOpen (clock name) (circuitBreaker svc)
      in ((name, \<lparr> sh_status = (if opn then ''DOWN'' else ''UP''),
                   sh_targets = h ! service.targets svc,
                   sh_circuitState = getState cb' \<rparr>),
          (name, svc\<lparr>circuitBreaker := cb'\<rparr>)))"

definition getHealthMiddleware ::
  "(string \<Rightarrow> int) \<Rightarrow> heap \<Rightarrow> ServiceProxy \<Rightarrow> health \<times> ServiceProxy" where
  "getHealthMiddleware clock h p =
     (let visited = map (health_visit clock h) (services p);
          report = fold (\<lambda>(name, entry) ob. obj_assign ob name entry) (map fst visited) []
      in (\<lparr> h_status = (if list_ex (\<lambda>(name, s). sh_status s = ''DOWN'') report
                         then ''DEGRADED'' else ''UP''),
            h_services = report \<rparr>,
          p\<lparr>services := map snd visited\<rparr>))"

subsection \<open>Calls on the load balancer of a registered service\<close>



section \<open>Frame conditions and sample data\<close>



subsection \<open>Sample breakers\<close>

text \<open>
  \<open>cb3\<close>: threshold 2 and reset timeout 1000 ms, after failures at times 100 and 200;
  \<open>cb_half\<close>: the same breaker after an \<open>isOpen()\<close> call at time 1201.
\<close>

definition cb3 :: CircuitBreaker where
  "cb3 = recordFailures [100, 200] (new_CircuitBreaker \<lparr>opt_failureThreshold = Some 2, opt_resetTimeout = Some 1000, opt_halfOpenSuccessThreshold = None, opt_requestTimeout = None\<rparr>)"

definition cb_half :: CircuitBreaker where
  "cb_half = snd (isOpen 1201 cb3)"

subsection \<open>Sample load balancers\<close>

text \<open>
  Three targets, after one selection: with round-robin the cursor is at 1, with
  least-connections the first target holds one connection.
\<close>

definition heap_abc :: heap where
  "heap_abc = [[''a'', ''b'', ''c'']]"

definition lb_rr :: "heap \<times> LoadBalancer" where
  "lb_rr = lb_run [GetNextTarget 0] (new_LoadBalancer heap_abc 0 ''round-robin'')"







subsection \<open>Sample proxies\<close>

definition no_options :: options where
  "no_options = \<lparr> opt_loadBalancingStrategy = None, opt_circuitBreaker = None,
                   opt_responseHeaders = None \<rparr>"

definition least_options :: options where
  "least_options = \<lparr> opt_loadBalancingStrategy = Some ''least-connections'',
                      opt_circuitBreaker = None, opt_responseHeaders = None \<rparr>"

definition heap_ab :: heap where
  "heap_ab = [[''a'', ''b'']]"

text \<open>One service with two targets and the least-connections strategy.\<close>

definition registered_lc :: "(error + unit) \<times> heap \<times> ServiceProxy" where
  "registered_lc = registerService ''svc'' (Array 0) least_options heap_ab (new_ServiceProxy no_options)"


text \<open>A target list that names the same address twice.\<close>

definition heap_dup :: heap where
  "heap_dup = [[''a'', ''a'']]"

text \<open>
  Two services. The first one is registered under the given name with a failure
  threshold of 2, and its breaker has seen two transport failures, recorded through the
  handler's \<open>onError\<close> callback at times 100 and 200.
\<close>

definition heap_two :: heap where
  "heap_two = [[''a'', ''b''], [''u'']]"

definition auth_options :: options where
  "auth_options =
     \<lparr> opt_loadBalancingStrategy = None,
       opt_circuitBreaker = Some \<lparr> opt_failureThreshold = Some 2, opt_resetTimeout = Some 1000,
                                   opt_halfOpenSuccessThreshold = None, opt_requestTimeout = None \<rparr>,
       opt_responseHeaders = None \<rparr>"

definition two_registered :: "string \<Rightarrow> heap \<times> ServiceProxy" where
  "two_registered first =
     (let (r1, h1, p1) = registerService first (Array 0) auth_options heap_two
                           (new_ServiceProxy no_options);
          (r2, h2, p2) = registerService ''users'' (Array 1) no_options h1 p1
      in (h2, p2))"

definition degraded :: "string \<Rightarrow> heap \<times> ServiceProxy" where
  "degraded first =
     (let (h, p) = two_registered first in
      case map_of (services p) first of
        None \<Rightarrow> (h, p)
      | Some svc \<Rightarrow>
          (h, p\<lparr>services := map_set (services p) first
                 (fst (onError 200 None (Some ''a'') False
                   (fst (onError 100 None (Some ''a'') False svc))))\<rparr>))"




section \<open>Properties of the circuit breaker\<close>

lemma recordFailure_below:
  "state cb = CLOSED \<Longrightarrow> failureCount cb + 1 < failureThreshold cb \<Longrightarrow>
   recordFailure now cb = cb\<lparr>lastFailureTime := Some now, failureCount := failureCount cb + 1, successCount := 0\<rparr>"
  by (simp add: recordFailure_def Let_def)

lemma recordFailure_reach:
  "state cb = CLOSED \<Longrightarrow> failureThreshold cb \<le> failureCount cb + 1 \<Longrightarrow>
   recordFailure now cb = cb\<lparr>lastFailureTime := Some now, failureCount := failureCount cb + 1, successCount := 0, state := OPEN\<rparr>"
  by (simp add: recordFailure_def Let_def transitionToOpen_def)

lemma recordFailures_below:
  "state cb = CLOSED \<Longrightarrow> failureCount cb + int (length ts) < failureThreshold cb \<Longrightarrow>
   state (recordFailures ts cb) = CLOSED \<and>
   failureCount (recordFailures ts cb) = failureCount cb + int (length ts) \<and>
   failureThreshold (recordFailures ts cb) = failureThreshold cb"
proof (induction ts arbitrary: cb)
  case Nil
  then show ?case by (simp add: recordFailures_def)
next
  case (Cons t ts)
  let ?cb1 = "recordFailure t cb"
  have step: "?cb1 = cb\<lparr>lastFailureTime := Some t, failureCount := failureCount cb + 1, successCount := 0\<rparr>"
    using Cons.prems by (intro recordFailure_below) auto
  have "state ?cb1 = CLOSED" "failureCount ?cb1 + int (length ts) < failureThreshold ?cb1"
    using Cons.prems by (simp_all add: step)
  from Cons.IH[OF this] show ?case
    by (simp add: recordFailures_def step)
qed

lemma recordFailures_snoc:
  "recordFailures (ts @ [t]) cb = recordFailure t (recordFailures ts cb)"
  by (simp add: recordFailures_def)

lemma recordFailures_exact:
  assumes "state cb = CLOSED" "failureCount cb + int (length ts) = failureThreshold cb" "ts \<noteq> []"
  shows "state (recordFailures ts cb) = OPEN"
proof -
  obtain us u where ts: "ts = us @ [u]"
    using assms(3) by (metis rev_exhaust)
  have b: "failureCount cb + int (length us) < failureThreshold cb"
    using assms(2) ts by simp
  note B = recordFailures_below[OF assms(1) b]
  show ?thesis
    unfolding ts recordFailures_snoc
    using B assms(2) ts
    by (simp add: recordFailure_reach)
qed

lemma recordSuccess_closed:
  "state cb = CLOSED \<Longrightarrow> recordSuccess cb = cb\<lparr>failureCount := 0\<rparr>"
  by (simp add: recordSuccess_def Let_def)

text \<open>
  Claim C3. For every failure threshold \<open>F \<ge> 1\<close>, a breaker that is \<open>CLOSED\<close> with a
  failure counter of 0 is still \<open>CLOSED\<close> after fewer than \<open>F\<close> consecutive
  \<open>recordFailure\<close> calls and is \<open>OPEN\<close> after exactly \<open>F\<close> of them (whatever the clock
  readings \<open>ts\<close>); one \<open>recordSuccess\<close> before the threshold is reached sets the failure
  counter to 0 and leaves the state \<open>CLOSED\<close>; hence \<open>F - 1\<close> failures, one success and
  \<open>F - 1\<close> further failures leave the breaker \<open>CLOSED\<close>.
\<close>

theorem breaker_opens_after_threshold_failures:
  assumes "1 \<le> F" and "failureThreshold cb = F" and "state cb = CLOSED" and "failureCount cb = 0"
  shows "(int (length ts) < F \<longrightarrow> state (recordFailures ts cb) = CLOSED)
       \<and> (int (length ts) = F \<longrightarrow> state (recordFailures ts cb) = OPEN)
       \<and> (int (length ts) < F \<longrightarrow>
            state (recordSuccess (recordFailures ts cb)) = CLOSED \<and>
            failureCount (recordSuccess (recordFailures ts cb)) = 0)
       \<and> (int (length ts1) = F - 1 \<and> int (length ts2) = F - 1 \<longrightarrow>
            state (recordFailures ts2 (recordSuccess (recordFailures ts1 cb))) = CLOSED)"
proof (intro conjI impI)
  assume l: "int (length ts) < F"
  then have b: "failureCount cb + int (length ts) < failureThreshold cb"
    using assms by simp
  from recordFailures_below[OF assms(3) b]
  show "state (recordFailures ts cb) = CLOSED" by simp
  from recordFailures_below[OF assms(3) b]
  show "state (recordSuccess (recordFailures ts cb)) = CLOSED"
       "failureCount (recordSuccess (recordFailures ts cb)) = 0"
    by (simp_all add: recordSuccess_closed)
next
  assume l: "int (length ts) = F"
  then have "ts \<noteq> []" using assms(1) by auto
  then show "state (recordFailures ts cb) = OPEN"
    using recordFailures_exact[OF assms(3), of ts] l assms by simp
next
  assume l: "int (length ts1) = F - 1 \<and> int (length ts2) = F - 1"
  let ?cb1 = "recordFailures ts1 cb"
  let ?cb2 = "recordSuccess ?cb1"
  have b: "failureCount cb + int (length ts1) < failureThreshold cb"
    using assms l by simp
  note B = recordFailures_below[OF assms(3) b]
  have c2: "state ?cb2 = CLOSED" "failureCount ?cb2 = 0" "failureThreshold ?cb2 = F"
    using B assms by (simp_all add: recordSuccess_closed)
  have "failureCount ?cb2 + int (length ts2) < failureThreshold ?cb2"
    using c2 l by simp
  from recordFailures_below[OF c2(1) this]
  show "state (recordFailures ts2 ?cb2) = CLOSED" by simp
qed

theorem breaker_opens_after_threshold_failures_witness:
  "state (recordFailures [10, 20] (new_CircuitBreaker \<lparr>opt_failureThreshold = Some 3, opt_resetTimeout = None, opt_halfOpenSuccessThreshold = None, opt_requestTimeout = None\<rparr>)) = CLOSED
 \<and> state (recordFailures [10, 20, 30] (new_CircuitBreaker \<lparr>opt_failureThreshold = Some 3, opt_resetTimeout = None, opt_halfOpenSuccessThreshold = None, opt_requestTimeout = None\<rparr>)) = OPEN"
  using breaker_opens_after_threshold_failures[of 3 "new_CircuitBreaker \<lparr>opt_failureThreshold = Some 3, opt_resetTimeout = None, opt_halfOpenSuccessThreshold = None, opt_requestTimeout = None\<rparr>" "[10,20]"]
   breaker_opens_after_threshold_failures[of 3 "new_CircuitBreaker \<lparr>opt_failureThreshold = Some 3, opt_resetTimeout = None, opt_halfOpenSuccessThreshold = None, opt_requestTimeout = None\<rparr>" "[10,20,30]"]
  by (simp add: new_CircuitBreaker_def js_or_def)

text \<open>
  Claim C4. When the state is \<open>OPEN\<close>, \<open>isOpen()\<close> returns true and changes nothing as long
  as the time elapsed since \<open>lastFailureTime\<close> does not exceed \<open>resetTimeout\<close>; once it
  exceeds \<open>resetTimeout\<close>, the same call moves the breaker to \<open>HALF_OPEN\<close>, clears the
  success counter and returns false. (The elapsed time is \<open>now - lastFailureTime\<close>, with
  JavaScript's reading of a \<open>null\<close> timestamp as 0.)
\<close>

theorem isOpen_from_OPEN:
  assumes "state cb = OPEN"
  shows "(now - js_time (lastFailureTime cb) \<le> resetTimeout cb \<longrightarrow>
            isOpen now cb = (True, cb))
       \<and> (now - js_time (lastFailureTime cb) > resetTimeout cb \<longrightarrow>
            isOpen now cb = (False, cb\<lparr>state := HALF_OPEN, successCount := 0\<rparr>))"
  using assms by (simp add: isOpen_def transitionToHalfOpen_def Let_def)

theorem isOpen_from_OPEN_witness:
  "state cb3 = OPEN \<and> lastFailureTime cb3 = Some 200
   \<and> isOpen 1200 cb3 = (True, cb3)
   \<and> isOpen 1201 cb3 = (False, cb3\<lparr>state := HALF_OPEN, successCount := 0\<rparr>)"
proof -
  have s: "state cb3 = OPEN" "lastFailureTime cb3 = Some 200" "resetTimeout cb3 = 1000"
    by (simp_all add: cb3_def recordFailures_def recordFailure_def new_CircuitBreaker_def js_or_def
        transitionToOpen_def Let_def)
  show ?thesis
    using isOpen_from_OPEN[OF s(1), of 1200] isOpen_from_OPEN[OF s(1), of 1201] s
    by (simp add: js_time_def)
qed

lemma recordSuccess_half_open_below:
  "state cb = HALF_OPEN \<Longrightarrow> successCount cb + 1 < halfOpenSuccessThreshold cb \<Longrightarrow>
   recordSuccess cb = cb\<lparr>failureCount := 0, successCount := successCount cb + 1\<rparr>"
  by (simp add: recordSuccess_def Let_def)

lemma recordSuccess_half_open_reach:
  "state cb = HALF_OPEN \<Longrightarrow> halfOpenSuccessThreshold cb \<le> successCount cb + 1 \<Longrightarrow>
   recordSuccess cb = cb\<lparr>state := CLOSED, failureCount := 0, successCount := 0\<rparr>"
  by (simp add: recordSuccess_def Let_def transitionToClosed_def)

lemma recordFailure_half_open:
  "state cb = HALF_OPEN \<Longrightarrow>
   recordFailure now cb = cb\<lparr>lastFailureTime := Some now, failureCount := failureCount cb + 1,
                               successCount := 0, state := OPEN\<rparr>"
  by (simp add: recordFailure_def Let_def transitionToOpen_def)

lemma recordSuccesses_Suc:
  "recordSuccesses (Suc n) cb = recordSuccess (recordSuccesses n cb)"
  by (simp add: recordSuccesses_def)

lemma recordSuccesses_below:
  "state cb = HALF_OPEN \<Longrightarrow> successCount cb + int n < halfOpenSuccessThreshold cb \<Longrightarrow>
   state (recordSuccesses n cb) = HALF_OPEN \<and>
   successCount (recordSuccesses n cb) = successCount cb + int n \<and>
   halfOpenSuccessThreshold (recordSuccesses n cb) = halfOpenSuccessThreshold cb"
proof (induction n)
  case 0
  then show ?case by (simp add: recordSuccesses_def)
next
  case (Suc n)
  let ?c = "recordSuccesses n cb"
  have ih: "state ?c = HALF_OPEN" "successCount ?c = successCount cb + int n"
           "halfOpenSuccessThreshold ?c = halfOpenSuccessThreshold cb"
    using Suc by simp_all
  have "successCount ?c + 1 < halfOpenSuccessThreshold ?c"
    using ih Suc.prems by simp
  from recordSuccess_half_open_below[OF ih(1) this] ih
  show ?case by (simp add: recordSuccesses_Suc)
qed

text \<open>
  Claim C5. From \<open>HALF_OPEN\<close>, \<open>recordSuccess\<close> adds one to the success counter (and
  clears the failure counter) while the threshold \<open>halfOpenSuccessThreshold\<close> is not
  reached, and moves the breaker to \<open>CLOSED\<close> with both counters 0 when the incremented
  counter reaches it; one \<open>recordFailure\<close> moves the breaker to \<open>OPEN\<close> whatever the
  success counter is. Counted from a success counter of 0 (as \<open>transitionToHalfOpen\<close>
  leaves it), fewer than \<open>halfOpenSuccessThreshold\<close> successes keep the breaker
  \<open>HALF_OPEN\<close> and exactly that many close it.
\<close>

theorem half_open_transitions:
  assumes "state cb = HALF_OPEN"
  shows "(successCount cb + 1 < halfOpenSuccessThreshold cb \<longrightarrow>
            recordSuccess cb = cb\<lparr>failureCount := 0, successCount := successCount cb + 1\<rparr>)
       \<and> (halfOpenSuccessThreshold cb \<le> successCount cb + 1 \<longrightarrow>
            recordSuccess cb = cb\<lparr>state := CLOSED, failureCount := 0, successCount := 0\<rparr>)
       \<and> state (recordFailure now cb) = OPEN
       \<and> (successCount cb = 0 \<and> int n < halfOpenSuccessThreshold cb \<longrightarrow>
            state (recordSuccesses n cb) = HALF_OPEN \<and>
            successCount (recordSuccesses n cb) = int n)
       \<and> (successCount cb = 0 \<and> 0 < n \<and> int n = halfOpenSuccessThreshold cb \<longrightarrow>
            state (recordSuccesses n cb) = CLOSED \<and>
            failureCount (recordSuccesses n cb) = 0 \<and>
            successCount (recordSuccesses n cb) = 0)"
proof (intro conjI impI)
  assume "successCount cb + 1 < halfOpenSuccessThreshold cb"
  then show "recordSuccess cb = cb\<lparr>failureCount := 0, successCount := successCount cb + 1\<rparr>"
    using assms by (rule recordSuccess_half_open_below[rotated])
next
  assume "halfOpenSuccessThreshold cb \<le> successCount cb + 1"
  then show "recordSuccess cb = cb\<lparr>state := CLOSED, failureCount := 0, successCount := 0\<rparr>"
    using assms by (rule recordSuccess_half_open_reach[rotated])
next
  show "state (recordFailure now cb) = OPEN"
    using assms by (simp add: recordFailure_half_open)
next
  assume a: "successCount cb = 0 \<and> int n < halfOpenSuccessThreshold cb"
  then have "successCount cb + int n < halfOpenSuccessThreshold cb" by simp
  from recordSuccesses_below[OF assms this] a
  show "state (recordSuccesses n cb) = HALF_OPEN"
       "successCount (recordSuccesses n cb) = int n" by simp_all
next
  assume a: "successCount cb = 0 \<and> 0 < n \<and> int n = halfOpenSuccessThreshold cb"
  then obtain m where n: "n = Suc m" by (cases n) auto
  let ?c = "recordSuccesses m cb"
  have "successCount cb + int m < halfOpenSuccessThreshold cb" using a n by simp
  note B = recordSuccesses_below[OF assms this]
  have r: "halfOpenSuccessThreshold ?c \<le> successCount ?c + 1"
    using B a n by simp
  have e: "recordSuccesses n cb = ?c\<lparr>state := CLOSED, failureCount := 0, successCount := 0\<rparr>"
    unfolding n recordSuccesses_Suc
    using B r by (intro recordSuccess_half_open_reach) simp_all
  show "state (recordSuccesses n cb) = CLOSED"
       "failureCount (recordSuccesses n cb) = 0"
       "successCount (recordSuccesses n cb) = 0"
    by (simp_all add: e)
qed

theorem half_open_transitions_witness:
  "state cb_half = HALF_OPEN \<and> successCount cb_half = 0 \<and> halfOpenSuccessThreshold cb_half = 3
   \<and> recordSuccess cb_half = cb_half\<lparr>failureCount := 0, successCount := 1\<rparr>
   \<and> state (recordFailure 1300 (recordSuccesses 2 cb_half)) = OPEN
   \<and> state (recordSuccesses 2 cb_half) = HALF_OPEN
   \<and> state (recordSuccesses 3 cb_half) = CLOSED
   \<and> failureCount (recordSuccesses 3 cb_half) = 0
   \<and> successCount (recordSuccesses 3 cb_half) = 0"
proof -
  have s: "state cb_half = HALF_OPEN" "successCount cb_half = 0" "halfOpenSuccessThreshold cb_half = 3"
    by (simp_all add: cb_half_def cb3_def isOpen_def recordFailures_def recordFailure_def new_CircuitBreaker_def js_or_def
        transitionToOpen_def transitionToHalfOpen_def js_time_def Let_def)
  have s2: "state (recordSuccesses 2 cb_half) = HALF_OPEN"
    using half_open_transitions[OF s(1), of _ 2] s by simp
  show ?thesis
    using half_open_transitions[OF s(1), of 0 2] half_open_transitions[OF s(1), of 0 3]
      half_open_transitions[OF s2, of 1300 0] s
    by simp
qed

section \<open>Properties of the load balancer\<close>

subsection \<open>Round robin\<close>

lemma getNextTarget_round_robin:
  assumes "strategy lb \<noteq> ''random''" "strategy lb \<noteq> ''least-connections''"
    and "2 \<le> length (h ! LoadBalancer.targets lb)"
    and "currentIndex lb < length (h ! LoadBalancer.targets lb)"
  shows "getNextTarget rnd h lb =
           Inr (Some ((h ! LoadBalancer.targets lb) ! currentIndex lb),
                lb\<lparr>currentIndex := (currentIndex lb + 1) mod length (h ! LoadBalancer.targets lb)\<rparr>)"
proof -
  have "h ! LoadBalancer.targets lb \<noteq> []" "length (h ! LoadBalancer.targets lb) \<noteq> Suc 0"
    using assms(3) by auto
  then show ?thesis
    using assms by (simp add: getNextTarget_def getRoundRobinTarget_def js_index_def Let_def)
qed

lemma getNextTarget_single:
  assumes "length (h ! LoadBalancer.targets lb) = 1"
  shows "getNextTarget rnd h lb = Inr (Some ((h ! LoadBalancer.targets lb) ! 0), lb)"
proof -
  have "h ! LoadBalancer.targets lb \<noteq> []"
    using assms by auto
  then show ?thesis
    using assms by (simp add: getNextTarget_def js_index_def Let_def)
qed

lemma getNextTargets_round_robin:
  assumes "strategy lb \<noteq> ''random''" "strategy lb \<noteq> ''least-connections''"
    and "2 \<le> length (h ! LoadBalancer.targets lb)"
    and "currentIndex lb < length (h ! LoadBalancer.targets lb)"
  shows "getNextTargets rnds h lb =
           (map (\<lambda>i. Inr (Some ((h ! LoadBalancer.targets lb) !
                   ((currentIndex lb + i) mod length (h ! LoadBalancer.targets lb)))))
                [0..<length rnds],
            lb\<lparr>currentIndex := (currentIndex lb + length rnds) mod length (h ! LoadBalancer.targets lb)\<rparr>)"
  using assms
proof (induction rnds arbitrary: lb)
  case Nil
  then show ?case by simp
next
  case (Cons rnd rnds)
  let ?ts = "h ! LoadBalancer.targets lb"
  let ?n = "length ?ts"
  let ?lb1 = "lb\<lparr>currentIndex := (currentIndex lb + 1) mod ?n\<rparr>"
  have step: "getNextTarget rnd h lb = Inr (Some (?ts ! currentIndex lb), ?lb1)"
    using Cons.prems by (rule getNextTarget_round_robin)
  have pre: "strategy ?lb1 \<noteq> ''random''" "strategy ?lb1 \<noteq> ''least-connections''"
       "2 \<le> length (h ! LoadBalancer.targets ?lb1)"
       "currentIndex ?lb1 < length (h ! LoadBalancer.targets ?lb1)"
  proof -
    have "0 < ?n" using Cons.prems(3) by linarith
    then show "currentIndex ?lb1 < length (h ! LoadBalancer.targets ?lb1)" by simp
  qed (use Cons.prems in simp_all)
  have idx: "(Suc (currentIndex lb) mod ?n + i) mod ?n = Suc (currentIndex lb + i) mod ?n" for i
    using mod_add_left_eq[of "Suc (currentIndex lb)" ?n i] by simp
  have hd0: "currentIndex lb mod ?n = currentIndex lb"
    using Cons.prems by simp
  have upt: "[0..<Suc (length rnds)] = 0 # map Suc [0..<length rnds]"
    by (simp add: upt_conv_Cons map_Suc_upt del: upt_Suc)
  show ?case
    using Cons.IH[OF pre]
    by (simp add: step idx hd0 upt comp_def del: upt_Suc)
qed

lemma rotate_as_map:
  assumes "c < length ts"
  shows "map (\<lambda>i. ts ! ((c + i) mod length ts)) [0..<length ts] = rotate c ts"
  by (rule nth_equalityI) (simp_all add: nth_rotate)

lemma mset_rotate_eq: "mset (rotate c ts) = mset ts"
proof -
  let ?k = "c mod length ts"
  have "mset ts = mset (take ?k ts) + mset (drop ?k ts)"
    by (metis append_take_drop_id mset_append)
  then show ?thesis
    by (simp add: rotate_drop_take add.commute)
qed

text \<open>
  Claim C6. With the round-robin strategy, a cursor inside the list and \<open>N\<close> targets,
  one \<open>getNextTarget()\<close> call returns the target at the cursor and advances the cursor
  by one modulo \<open>N\<close>; \<open>N\<close> consecutive calls return the targets in list order
  starting at the cursor (the list rotated by the cursor), which holds each target
  exactly as often as the list does, and leave the load balancer as it was.
\<close>

theorem round_robin_cycle:
  assumes "strategy lb = ''round-robin''"
    and "ts = h ! LoadBalancer.targets lb"
    and "currentIndex lb < length ts"
    and "length rnds = length ts"
  shows "getNextTarget rnd h lb =
           Inr (Some (ts ! currentIndex lb),
                lb\<lparr>currentIndex := (currentIndex lb + 1) mod length ts\<rparr>)
       \<and> getNextTargets rnds h lb =
           (map (\<lambda>t. Inr (Some t)) (rotate (currentIndex lb) ts), lb)
       \<and> mset (rotate (currentIndex lb) ts) = mset ts"
proof (cases "length ts = 1")
  case True
  then have c0: "currentIndex lb = 0" using assms(3) by simp
  obtain r where r: "rnds = [r]" using assms(4) True
    by (cases rnds) auto
  obtain t where t: "ts = [t]" using True
    by (cases ts) auto
  have one: "getNextTarget x h lb = Inr (Some (ts ! 0), lb)" for x
    using getNextTarget_single[of h lb x] True assms(2) by simp
  show ?thesis
    by (simp add: r one c0 True mset_rotate_eq) (simp add: t)
next
  case False
  then have two: "2 \<le> length (h ! LoadBalancer.targets lb)"
    using assms(2,3) by simp
  have s: "strategy lb \<noteq> ''random''" "strategy lb \<noteq> ''least-connections''"
    using assms(1) by simp_all
  have c: "currentIndex lb < length (h ! LoadBalancer.targets lb)"
    using assms(2,3) by simp
  have m: "map (\<lambda>i. Inr (Some (ts ! ((currentIndex lb + i) mod length ts)))) [0..<length ts]
           = map (\<lambda>t. Inr (Some t)) (rotate (currentIndex lb) ts)"
    using rotate_as_map[OF assms(3)] by (metis (no_types, lifting) map_map comp_def map_eq_conv)
  show ?thesis
    using getNextTarget_round_robin[OF s two c, of rnd]
          getNextTargets_round_robin[OF s two c, of rnds]
          assms(2,3,4) m
    by (simp add: mset_rotate_eq)
qed

lemma lb_rr_eval:
  "lb_rr = ([[''a'', ''b'', ''c''], [''a'', ''b'', ''c'']],
            \<lparr> LoadBalancer.targets = 1, strategy = ''round-robin'', currentIndex = 1,
              connectionCounts = [''a'' \<mapsto> Num 0, ''b'' \<mapsto> Num 0, ''c'' \<mapsto> Num 0] \<rparr>)"
  by (simp add: lb_rr_def lb_run_def heap_abc_def new_LoadBalancer_def alloc_def obj_set_def obj_get_def obj_delete_def
      getNextTarget_def getRoundRobinTarget_def js_index_def Let_def)

text \<open>
  Witness for C6: three targets, cursor at 1; the calls return b, c, a.
\<close>

theorem round_robin_cycle_witness:
  "strategy (snd lb_rr) = ''round-robin''
   \<and> fst lb_rr ! LoadBalancer.targets (snd lb_rr) = [''a'', ''b'', ''c'']
   \<and> currentIndex (snd lb_rr) = 1
   \<and> getNextTarget 0 (fst lb_rr) (snd lb_rr) = Inr (Some ''b'', (snd lb_rr)\<lparr>currentIndex := 2\<rparr>)
   \<and> getNextTargets [0, 0, 0] (fst lb_rr) (snd lb_rr)
       = ([Inr (Some ''b''), Inr (Some ''c''), Inr (Some ''a'')], snd lb_rr)"
proof -
  have a: "strategy (snd lb_rr) = ''round-robin''"
    and b: "[''a'', ''b'', ''c''] = fst lb_rr ! LoadBalancer.targets (snd lb_rr)"
    and c: "currentIndex (snd lb_rr) < length [''a'', ''b'', ''c'']"
    and c1: "currentIndex (snd lb_rr) = 1"
    by (simp_all add: lb_rr_eval)
  have d: "length [0::real, 0, 0] = length [''a'', ''b'', ''c'']" by simp
  have r: "rotate 1 [''a'', ''b'', ''c''] = [''b'', ''c'', ''a'']" by simp
  note T = round_robin_cycle[OF a b c d, of 0]
  have e1: "getNextTarget 0 (fst lb_rr) (snd lb_rr) = Inr (Some ''b'', (snd lb_rr)\<lparr>currentIndex := 2\<rparr>)"
    using T[THEN conjunct1] unfolding c1 by simp
  have e2: "getNextTargets [0, 0, 0] (fst lb_rr) (snd lb_rr)
       = ([Inr (Some ''b''), Inr (Some ''c''), Inr (Some ''a'')], snd lb_rr)"
    using T[THEN conjunct2, THEN conjunct1] by (simp only: c1 r list.map)
  show ?thesis
    using a b[symmetric] c1 e1 e2 by (simp only: simp_thms)
qed

subsection \<open>Least connections\<close>










subsection \<open>The data-model invariant\<close>























section \<open>Properties of the service proxy\<close>

subsection \<open>Registration\<close>

lemma map_of_map_set: "map_of (map_set kvs k v) = (map_of kvs)(k \<mapsto> v)"
  by (induction kvs) (auto simp: fun_eq_iff)


text \<open>
  Claim C2, as amended. \<open>registerService\<close> throws \<open>InvalidConfiguration\<close> when
  \<open>targets\<close> is not an array or is an empty array, and then leaves the store and the
  proxy (hence the registry) exactly as they were; every non-empty array is accepted,
  whether or not it names an address twice, and the service is then registered with
  that array.
\<close>

theorem registerService_rejects_only_empty:
  shows "(tgts = NotAnArray \<or> (\<exists>r. tgts = Array r \<and> h ! r = []) \<longrightarrow>
            registerService name tgts opts h p = (Inl InvalidConfiguration, h, p))
       \<and> (\<forall>r. tgts = Array r \<and> h ! r \<noteq> [] \<longrightarrow>
            fst (registerService name tgts opts h p) = Inr ()
          \<and> (\<exists>svc. map_of (services (snd (snd (registerService name tgts opts h p)))) name = Some svc
                  \<and> service.targets svc = r))"
  by (auto simp: registerService_def Let_def map_of_map_set split: prod.splits targets_arg.splits)

text \<open>
  Witness for C2 (amended): an empty array, a non-array, and the list a, a.
\<close>

theorem registerService_rejects_only_empty_witness:
  "registerService ''svc'' (Array 0) no_options [[]] (new_ServiceProxy no_options)
     = (Inl InvalidConfiguration, [[]], new_ServiceProxy no_options)
   \<and> registerService ''svc'' NotAnArray no_options [[]] (new_ServiceProxy no_options)
     = (Inl InvalidConfiguration, [[]], new_ServiceProxy no_options)
   \<and> fst (registerService ''svc'' (Array 0) no_options heap_dup (new_ServiceProxy no_options)) = Inr ()"
  using registerService_rejects_only_empty[of "Array 0" "[[]]" "''svc''" no_options "new_ServiceProxy no_options"]
    registerService_rejects_only_empty[of NotAnArray "[[]]" "''svc''" no_options "new_ServiceProxy no_options"]
    registerService_rejects_only_empty[of "Array 0" heap_dup "''svc''" no_options "new_ServiceProxy no_options"]
  by (simp add: heap_dup_def)

text \<open>
  Counterexample to C2 as stated: the target list a, a has a duplicate, yet the call
  returns normally and the registry, empty before, holds the service afterwards.
\<close>

theorem duplicate_targets_accepted:
  "\<not> distinct (heap_dup ! 0)
   \<and> fst (registerService ''svc'' (Array 0) no_options heap_dup (new_ServiceProxy no_options)) = Inr ()
   \<and> map fst (services (snd (snd
        (registerService ''svc'' (Array 0) no_options heap_dup (new_ServiceProxy no_options)))))
      = [''svc'']
   \<and> services (new_ServiceProxy no_options) = []"
  by (simp add: heap_dup_def registerService_def new_ServiceProxy_def Let_def split: prod.splits)

subsection \<open>Health middleware\<close>

lemma health_visit_fst:
  "fst (health_visit clock h (name, svc)) =
     (name, \<lparr> sh_status = (if fst (isOpen (clock name) (circuitBreaker svc)) then ''DOWN'' else ''UP''),
              sh_targets = h ! service.targets svc,
              sh_circuitState = getState (snd (isOpen (clock name) (circuitBreaker svc))) \<rparr>)"
  by (simp add: health_visit_def split: prod.splits)

lemma health_visit_snd:
  "snd (health_visit clock h (name, svc)) =
     (name, svc\<lparr>circuitBreaker := snd (isOpen (clock name) (circuitBreaker svc))\<rparr>)"
  by (simp add: health_visit_def split: prod.splits)


lemma health_entries_names:
  "map fst (map fst (map (health_visit clock h) kvs)) = map fst kvs"
  by (induction kvs) (auto simp: health_visit_fst)

text \<open>Own properties of a plain object after an assignment.\<close>

lemma map_of_insert_index: "map_of (insert_index ob k v) = (map_of ob)(k \<mapsto> v)"
proof (induction ob)
  case Nil
  then show ?case by simp
next
  case (Cons e ob)
  obtain k' v' where e: "e = (k', v')" by (cases e)
  show ?case
  proof (cases "is_array_index k' \<and> dec_value k' < dec_value k")
    case True
    then have "k' \<noteq> k" by auto
    then show ?thesis using True Cons.IH by (auto simp: e fun_eq_iff)
  next
    case False
    then show ?thesis by (auto simp: e)
  qed
qed

lemma map_of_replace_at:
  "map_of (map (\<lambda>(k', v'). if k' = k then (k', v) else (k', v')) ob) x =
     (if x = k \<and> k \<in> fst ` set ob then Some v else map_of ob x)"
proof (induction ob)
  case Nil
  then show ?case by simp
next
  case (Cons e ob)
  obtain k' v' where e: "e = (k', v')" by (cases e)
  show ?case using Cons.IH by (cases "k' = k") (force simp: e)+
qed

lemma map_of_replace:
  "k \<in> fst ` set ob \<Longrightarrow>
   map_of (map (\<lambda>(k', v'). if k' = k then (k', v) else (k', v')) ob) = (map_of ob)(k \<mapsto> v)"
  by (simp add: fun_eq_iff map_of_replace_at)

lemma map_of_obj_assign:
  "map_of (obj_assign ob k v) = (if k = ''__proto__'' then map_of ob else (map_of ob)(k \<mapsto> v))"
proof (cases "k = ''__proto__''")
  case True
  then show ?thesis by (simp add: obj_assign_def)
next
  case False
  show ?thesis
  proof (cases "k \<in> fst ` set ob")
    case True
    then show ?thesis using False map_of_replace[OF True, of v] by (simp add: obj_assign_def)
  next
    case nk: False
    then have "map_of ob k = None" by (simp add: map_of_eq_None_iff)
    then show ?thesis using False nk
      by (auto simp: obj_assign_def map_of_insert_index fun_eq_iff map_add_def split: option.splits)
  qed
qed

lemma map_of_fold_obj_assign:
  assumes "distinct (map fst es)"
  shows "map_of (fold (\<lambda>(name, entry) ob. obj_assign ob name entry) es ob) name =
           (if name = ''__proto__'' then map_of ob name
            else case map_of es name of None \<Rightarrow> map_of ob name | Some e \<Rightarrow> Some e)"
  using assms
proof (induction es arbitrary: ob)
  case Nil
  then show ?case by simp
next
  case (Cons x es)
  obtain n e where x: "x = (n, e)" by (cases x)
  have d: "distinct (map fst es)" and nn: "n \<notin> fst ` set es"
    using Cons.prems x by auto
  have none: "map_of es n = None" using nn by (simp add: map_of_eq_None_iff)
  note IH = Cons.IH[OF d, of "obj_assign ob n e"]
  show ?case
  proof (cases "name = ''__proto__''")
    case True
    then show ?thesis using IH by (simp add: x map_of_obj_assign)
  next
    case False
    show ?thesis
    proof (cases "name = n")
      case True
      then show ?thesis using IH False none by (simp add: x map_of_obj_assign)
    next
      case nf: False
      then show ?thesis using IH False
        by (auto simp: x map_of_obj_assign split: option.splits)
    qed
  qed
qed


lemma health_proto_absent:
  assumes "distinct (map fst (services p))"
  shows "map_of (h_services (fst (getHealthMiddleware clock h p))) ''__proto__'' = None"
proof -
  let ?es = "map fst (map (health_visit clock h) (services p))"
  have rep: "h_services (fst (getHealthMiddleware clock h p))
             = fold (\<lambda>(name, entry) ob. obj_assign ob name entry) ?es []"
    by (simp add: getHealthMiddleware_def Let_def)
  have d: "distinct (map fst ?es)"
    using assms(1) by (simp only: health_entries_names)
  show ?thesis
    unfolding rep map_of_fold_obj_assign[OF d] by simp
qed

lemma degraded_proto_eval:
  "degraded ''__proto__'' =
     ([[''a'', ''b''], [''u''], [''a'', ''b''], [''u'']],
      \<lparr> services =
          [(''__proto__'',
            \<lparr> targets = 0,
              loadBalancer = \<lparr> LoadBalancer.targets = 2, strategy = ''round-robin'', currentIndex = 0,
                               connectionCounts = [''a'' \<mapsto> Num 0, ''b'' \<mapsto> Num 0] \<rparr>,
              circuitBreaker = \<lparr> state = OPEN, failureCount = 2, successCount = 0,
                                 lastFailureTime = Some 200, failureThreshold = 2, resetTimeout = 1000,
                                 halfOpenSuccessThreshold = 3, requestTimeout = 10000 \<rparr>,
              options = \<lparr> so_loadBalancingStrategy = None,
                          so_circuitBreaker = \<lparr> opt_failureThreshold = Some 2, opt_resetTimeout = Some 1000,
                              opt_halfOpenSuccessThreshold = None, opt_requestTimeout = Some 10000 \<rparr>,
                          so_responseHeaders = None \<rparr> \<rparr>),
           (''users'',
            \<lparr> targets = 1,
              loadBalancer = \<lparr> LoadBalancer.targets = 3, strategy = ''round-robin'', currentIndex = 0,
                               connectionCounts = [''u'' \<mapsto> Num 0] \<rparr>,
              circuitBreaker = \<lparr> state = CLOSED, failureCount = 0, successCount = 0,
                                 lastFailureTime = None, failureThreshold = 5, resetTimeout = 30000,
                                 halfOpenSuccessThreshold = 3, requestTimeout = 10000 \<rparr>,
              options = \<lparr> so_loadBalancingStrategy = None,
                          so_circuitBreaker = \<lparr> opt_failureThreshold = Some 5, opt_resetTimeout = Some 30000,
                              opt_halfOpenSuccessThreshold = None, opt_requestTimeout = Some 10000 \<rparr>,
                          so_responseHeaders = None \<rparr> \<rparr>)],
        defaultOptions = no_options \<rparr>)"
  by (simp add: degraded_def two_registered_def registerService_def heap_two_def
      new_ServiceProxy_def no_options_def auth_options_def merge_options_def spread_def
      js_or_str_def new_LoadBalancer_def alloc_def obj_set_def new_CircuitBreaker_def js_or_def
      onError_def js_truthy_def recordFailure_def transitionToOpen_def Let_def)

text \<open>
  Claim C9 does not hold of the code. Two services are registered, the first under the
  name __proto__; its breaker is open and \<open>isOpen()\<close> returns true at time 500. The
  assignment \<open>health.services['__proto__'] = ...\<close> creates no property, so the report
  has an entry for \<open>users\<close> only, no service is reported \<open>DOWN\<close>, and the overall
  status is \<open>UP\<close>.
\<close>

theorem health_report_misses_proto:
  "map fst (services (snd (degraded ''__proto__''))) = [''__proto__'', ''users'']
   \<and> (case map_of (services (snd (degraded ''__proto__''))) ''__proto__'' of
         None \<Rightarrow> False
       | Some svc \<Rightarrow> fst (isOpen 500 (circuitBreaker svc)))
   \<and> h_services (fst (getHealthMiddleware (\<lambda>name. 500)
         (fst (degraded ''__proto__'')) (snd (degraded ''__proto__''))))
       = [(''users'',
           \<lparr> sh_status = ''UP'', sh_targets = [''u''],
             sh_circuitState = \<lparr> snap_state = CLOSED, snap_failureCount = 0,
                                 snap_successCount = 0, snap_lastFailureTime = None \<rparr> \<rparr>)]
   \<and> h_status (fst (getHealthMiddleware (\<lambda>name. 500)
         (fst (degraded ''__proto__'')) (snd (degraded ''__proto__'')))) = ''UP''"
  by (simp add: degraded_proto_eval getHealthMiddleware_def health_visit_def isOpen_def
      js_time_def getState_def obj_assign_def is_array_index_def is_digit_def Let_def)

subsection \<open>The reported target list\<close>













lemma registered_lc_eval:
  "registered_lc =
     (Inr (), [[''a'', ''b''], [''a'', ''b'']],
      \<lparr> services = [(''svc'',
           \<lparr> targets = 0,
             loadBalancer = \<lparr> LoadBalancer.targets = 1, strategy = ''least-connections'', currentIndex = 0,
                              connectionCounts = [''a'' \<mapsto> Num 0, ''b'' \<mapsto> Num 0] \<rparr>,
             circuitBreaker = \<lparr> state = CLOSED, failureCount = 0, successCount = 0,
                                lastFailureTime = None, failureThreshold = 5, resetTimeout = 30000,
                                halfOpenSuccessThreshold = 3, requestTimeout = 10000 \<rparr>,
             options = \<lparr> so_loadBalancingStrategy = Some ''least-connections'',
                         so_circuitBreaker = \<lparr> opt_failureThreshold = Some 5, opt_resetTimeout = Some 30000,
                             opt_halfOpenSuccessThreshold = None, opt_requestTimeout = Some 10000 \<rparr>,
                         so_responseHeaders = None \<rparr> \<rparr>)],
        defaultOptions = no_options \<rparr>)"
  by (simp add: registered_lc_def registerService_def heap_ab_def new_ServiceProxy_def
      no_options_def least_options_def merge_options_def spread_def js_or_str_def
      new_LoadBalancer_def alloc_def obj_set_def obj_get_def obj_delete_def new_CircuitBreaker_def js_or_def Let_def)




subsection \<open>The request handler\<close>

text \<open>
  Neither outcome callback touches the load balancer, so nothing a request does after
  the selection can lower a connection counter.
\<close>

lemma outcome_callbacks_keep_load_balancer:
  "loadBalancer (fst (onError now msg target headersSent svc)) = loadBalancer svc
   \<and> loadBalancer (fst (onProxyRes now status svc)) = loadBalancer svc"
  by (simp add: onError_def onProxyRes_def Let_def)

text \<open>
  Claim C1 does not hold of the code. A service with two targets and the
  least-connections strategy handles one request: the router selects a and raises its
  counter from 0 to 1, and when the forwarding completes, with a response of status 200
  or with a transport failure, the counter is still 1. \<open>releaseConnection\<close>, applied to
  the result, would bring it back to 0, but the handler never calls it.
\<close>

theorem request_leaves_connection_counted:
  "(case getServiceMiddleware ''svc'' (snd (snd registered_lc)) of
      Inl e \<Rightarrow> False
    | Inr svc \<Rightarrow>
        connectionCounts (loadBalancer svc) ''a'' = Some (Num 0)
      \<and> (case handle_request 0 0 10 (Response 200) (fst (snd registered_lc)) svc of
            (done, target, svc') \<Rightarrow>
              done = Forwarded 200 [] \<and> target = Some ''a''
            \<and> connectionCounts (loadBalancer svc') ''a'' = Some (Num 1)
            \<and> connectionCounts (releaseConnection ''a'' (loadBalancer svc')) ''a''
                = Some (Num 0))
      \<and> (case handle_request 0 0 10 (TransportError None False) (fst (snd registered_lc)) svc of
            (done, target, svc') \<Rightarrow>
              target = Some ''a''
            \<and> connectionCounts (loadBalancer svc') ''a'' = Some (Num 1)))"
  by (simp add: registered_lc_eval getServiceMiddleware_def handle_request_def router_def
      isOpen_def getNextTarget_def getLeastConnectionsTarget_def least_step_def js_index_def
      onProxyRes_def onError_def recordSuccess_def recordFailure_def js_truthy_def
      js_or_str_def releaseConnection_def obj_get_def obj_set_def Let_def)

end
